theory Spec2Isabelle
  imports Main
begin

section \<open>Python strings\<close>

text \<open>
  Input lines and tokens are Python \<open>str\<close> values, modelled as \<open>string\<close> (a list of 8-bit
  characters, read as Latin-1 code points). What the code uses of \<open>str\<close>:
  \<open>an_input.split()\<close>, \<open>s.split(",")\<close> and \<open>int(item)\<close>. \<open>split\<close> separates at every
  character \<open>str.isspace\<close> accepts; \<open>int\<close> skips fewer characters around its number
  (the separators FS..US are not among them), takes an optional sign and decimal digits
  with single underscores between them, and refuses more than 4300 digits.
\<close>

definition isspace :: "char \<Rightarrow> bool" where
  \<comment> \<open>\<open>str.isspace\<close> on one character: TAB..CR, FS..US, space, NEL, NBSP.\<close>
  "isspace ch =
     (let n = (of_char ch :: nat)
      in (9 \<le> n \<and> n \<le> 13) \<or> (28 \<le> n \<and> n \<le> 32) \<or> n = 133 \<or> n = 160)"

fun split_ws :: "string \<Rightarrow> string \<Rightarrow> string list" where
  \<comment> \<open>\<open>cur\<close> is the token being read; runs of whitespace separate tokens, none is empty.\<close>
  "split_ws cur [] = (if cur = [] then [] else [cur])"
| "split_ws cur (ch # cs) =
     (if isspace ch then (if cur = [] then split_ws [] cs else cur # split_ws [] cs)
      else split_ws (cur @ [ch]) cs)"

definition str_split :: "string \<Rightarrow> string list" where
  \<comment> \<open>\<open>s.split()\<close>\<close>
  "str_split s = split_ws [] s"

fun split_sep :: "char \<Rightarrow> string \<Rightarrow> string \<Rightarrow> string list" where
  \<comment> \<open>\<open>s.split(sep)\<close> for a one-character separator: empty pieces are kept.\<close>
  "split_sep sep cur [] = [cur]"
| "split_sep sep cur (ch # cs) =
     (if ch = sep then cur # split_sep sep [] cs else split_sep sep (cur @ [ch]) cs)"

definition digit_val :: "char \<Rightarrow> int option" where
  "digit_val ch =
     (let n = (of_char ch :: nat) in if 48 \<le> n \<and> n \<le> 57 then Some (int n - 48) else None)"

fun digits_val :: "int \<Rightarrow> string \<Rightarrow> int option" where
  \<comment> \<open>The digits after the first one; a single underscore may stand between two digits.\<close>
  "digits_val acc [] = Some acc"
| "digits_val acc (ch # cs) =
     (if ch = CHR ''_'' then
        (case cs of
           [] \<Rightarrow> None
         | d # ds \<Rightarrow>
             (case digit_val d of None \<Rightarrow> None | Some v \<Rightarrow> digits_val (10 * acc + v) ds))
      else
        (case digit_val ch of None \<Rightarrow> None | Some v \<Rightarrow> digits_val (10 * acc + v) cs))"

definition int_space :: "char \<Rightarrow> bool" where
  \<comment> \<open>the whitespace \<open>int\<close> skips around a number: TAB..CR, space, NEL, NBSP\<close>
  "int_space ch =
     (let n = (of_char ch :: nat)
      in (9 \<le> n \<and> n \<le> 13) \<or> n = 32 \<or> n = 133 \<or> n = 160)"

definition int_strip :: "string \<Rightarrow> string" where
  "int_strip s = rev (dropWhile int_space (rev (dropWhile int_space s)))"

definition max_str_digits :: nat where
  \<comment> \<open>\<open>sys.int_info.default_max_str_digits\<close>\<close>
  "max_str_digits = 4300"

definition py_int :: "string \<Rightarrow> int option" where
  \<comment> \<open>\<open>int(s)\<close> in base 10; \<open>None\<close> stands for the \<open>ValueError\<close>.\<close>
  "py_int s =
     (case int_strip s of
        [] \<Rightarrow> None
      | ch # cs \<Rightarrow>
          (let sgn = (if ch = CHR ''-'' then - 1 else 1);
               body = (if ch = CHR ''-'' \<or> ch = CHR ''+'' then cs else ch # cs)
           in case body of
                [] \<Rightarrow> None
              | d # ds \<Rightarrow>
                  (case digit_val d of
                     None \<Rightarrow> None
                   | Some v \<Rightarrow>
                       if max_str_digits < length (filter (\<lambda>c. c \<noteq> CHR ''_'') body) then None
                       else map_option (\<lambda>n. sgn * n) (digits_val v ds))))"

section \<open>The dispatch parser (\<open>argparse\<close>)\<close>

text \<open>
  \<open>__init__\<close> builds \<open>ta_parser = ArgumentParser(add_help=False, prog="ta")\<close> with the one
  positional argument \<open>cmd\<close>, restricted to \<open>choices=CHOICES\<close>. The library's
  \<open>parse_known_args\<close> (CPython 3.7 to 3.11), for a parser of this shape:
  \<^item> \<open>_parse_optional\<close> classifies a token as an option string (\<open>O\<close>) when it starts with
    \<open>-\<close>, is longer than one character, is not a negative number and holds no space;
    any other token is an argument (\<open>A\<close>); after the first \<open>--\<close> every token is an argument;
  \<^item> an option string no declared option matches goes to the extras (\<open>consume_optional\<close>);
  \<^item> the first argument is taken by \<open>cmd\<close> (\<open>consume_positionals\<close>, pattern \<open>-*A-*\<close>,
    which also swallows an adjacent \<open>--\<close>); every later token goes to the extras;
  \<^item> a value outside \<open>choices\<close>, or no value at all, is reported by \<open>parser.error\<close>, which
    writes the usage message to stderr and raises \<open>SystemExit(2)\<close>.
\<close>

record cmd_parser =
  cmd_prog :: string
  cmd_choices :: "string list"

datatype parser_error =
    Invalid_choice string   \<comment> \<open>argument cmd: invalid choice\<close>
  | Required_missing        \<comment> \<open>the following arguments are required: cmd\<close>

fun all_digits :: "string \<Rightarrow> bool" where
  "all_digits [] = True"
| "all_digits (ch # cs) = (digit_val ch \<noteq> None \<and> all_digits cs)"

definition negative_number :: "string \<Rightarrow> bool" where
  \<comment> \<open>\<open>_negative_number_matcher\<close>: a minus sign, then digits, or optional digits, a dot, digits\<close>
  "negative_number s =
     (case s of
        [] \<Rightarrow> False
      | ch # cs \<Rightarrow>
          if ch = CHR ''-'' then
            (if all_digits cs then cs \<noteq> []
             else
               (case dropWhile (\<lambda>c. c \<noteq> CHR ''.'') cs of
                  [] \<Rightarrow> False
                | dot # fp \<Rightarrow>
                    all_digits (takeWhile (\<lambda>c. c \<noteq> CHR ''.'') cs) \<and> fp \<noteq> [] \<and> all_digits fp))
          else False)"

definition parse_optional :: "string \<Rightarrow> bool" where
  \<comment> \<open>\<open>_parse_optional\<close> of a parser that declares no option: is the token an option string?\<close>
  "parse_optional s =
     (case s of
        [] \<Rightarrow> False
      | ch # cs \<Rightarrow>
          if ch \<noteq> CHR ''-'' then False
          else if cs = [] then False
          else if negative_number s then False
          else if CHR '' '' \<in> set s then False
          else True)"

fun scan_args :: "string list \<Rightarrow> string list \<Rightarrow> string option \<times> string list" where
  \<comment> \<open>The value taken by \<open>cmd\<close> (if any) and the extras, in the order of the command line.\<close>
  "scan_args extras [] = (None, extras)"
| "scan_args extras (a # rest) =
     (if a = ''--'' then
        (case rest of
           [] \<Rightarrow> (None, extras @ [a])
         | b # rest' \<Rightarrow> (Some b, extras @ rest'))
      else if parse_optional a then scan_args (extras @ [a]) rest
      else
        (Some a,
         extras @ (case rest of [] \<Rightarrow> [] | b # rest' \<Rightarrow> if b = ''--'' then rest' else rest)))"

definition parse_known_args ::
  "cmd_parser \<Rightarrow> string list \<Rightarrow> parser_error + (string \<times> string list)" where
  \<comment> \<open>\<open>Inl\<close>: \<open>parser.error\<close> was called (usage on stderr, then \<open>SystemExit\<close>).\<close>
  "parse_known_args p args =
     (case scan_args [] args of
        (None, extras) \<Rightarrow> Inl Required_missing
      | (Some v, extras) \<Rightarrow>
          if v \<in> set (cmd_choices p) then Inr (v, extras) else Inl (Invalid_choice v))"

section \<open>Effects: files, output and calls to collaborators\<close>

datatype arg_value = Int_list "int list" | Int_val int

datatype reason =
    Unknown_flag | Repeated_flag | Missing_value | Type_coercion_failure | Failed_validity

datatype argument_error = ArgumentError string reason
  \<comment> \<open>the offending token and the reason\<close>

datatype failure =
    Argument_failure argument_error
  | UpstreamUnavailable
  | UpstreamFormatError
  | Other_failure string

datatype thrown =
    An_Exception string      \<comment> \<open>an instance of (a subclass of) \<open>Exception\<close>, with its text\<close>
  | A_SystemExit
  | A_KeyboardInterrupt

datatype outcome =
    Returns                  \<comment> \<open>the function does its work and returns\<close>
  | Reports failure          \<comment> \<open>it catches a failure of its own, reports it and returns\<close>
  | Raises thrown            \<comment> \<open>an exception leaves the function\<close>

datatype event =
    Print string                           \<comment> \<open>\<open>print(text)\<close>; the final newline is left out\<close>
  | Usage_error string parser_error        \<comment> \<open>\<open>parser.error\<close> of the parser \<open>prog\<close>, on stderr\<close>
  | Warning string argument_error          \<comment> \<open>warning of a per-command parser\<close>
  | Remove string                          \<comment> \<open>\<open>os.remove(path)\<close>\<close>
  | Plt_close_all                          \<comment> \<open>\<open>plt.close("all")\<close>\<close>
  | Plt_ion                                \<comment> \<open>\<open>plt.ion()\<close>\<close>
  | Plt_show                               \<comment> \<open>\<open>plt.show()\<close>\<close>
  | Overlap string arg_value arg_value     \<comment> \<open>\<open>ta_overlap.ema\<close> or \<open>.sma\<close> called with length, offset\<close>
  | Ran string "string list"               \<comment> \<open>a delegated function ran to completion\<close>
  | Diagnostic string failure              \<comment> \<open>a delegated function reported a failure\<close>

record world =
  files :: "string list"      \<comment> \<open>the regular files that exist\<close>
  events :: "event list"      \<comment> \<open>everything done so far, oldest first\<close>

definition emits :: "event list \<Rightarrow> world \<Rightarrow> world" where
  "emits evs w = w\<lparr>events := events w @ evs\<rparr>"

definition emit :: "event \<Rightarrow> world \<Rightarrow> world" where
  "emit ev w = emits [ev] w"

definition isfile :: "world \<Rightarrow> string \<Rightarrow> bool" where
  \<comment> \<open>\<open>os.path.isfile(path)\<close>\<close>
  "isfile w path = (path \<in> set (files w))"

definition os_remove :: "string \<Rightarrow> world \<Rightarrow> world" where
  \<comment> \<open>\<open>os.remove(path)\<close>, called on an existing file only\<close>
  "os_remove path w = emit (Remove path) (w\<lparr>files := removeAll path (files w)\<rparr>)"

section \<open>The per-command argument parser\<close>

type_synonym namespace = "(string \<times> arg_value) list"

record option_decl =
  option_strings :: "string list"
  dest :: string
  type_fn :: "string \<Rightarrow> reason + arg_value"
  default_val :: arg_value

record argument_parser =
  prog :: string
  arguments :: "option_decl list"

definition length_type :: "string \<Rightarrow> int list option" where
  \<comment> \<open>\<open>lambda s: [int(item) for item in s.split(",")]\<close>; \<open>None\<close> is the \<open>ValueError\<close> of \<open>int\<close>.\<close>
  "length_type s = those (map py_int (split_sep CHR '','' [] s))"

text \<open>
  Modelled from the spec: \<open>helper_funcs.check_positive\<close> is not among the sources. The
  spec gives the offset as a non-negative integer: the token is coerced with \<open>int\<close>
  (type coercion failure otherwise) and must satisfy the validity predicate \<open>0 \<le> n\<close>.
\<close>

definition check_positive :: "string \<Rightarrow> reason + int" where
  "check_positive s =
     (case py_int s of
        None \<Rightarrow> Inl Type_coercion_failure
      | Some n \<Rightarrow> if n < 0 then Inl Failed_validity else Inr n)"

definition length_option :: option_decl where
  \<comment> \<open>\<open>add_argument("-l", "--length", dest="length", type=..., default=[20, 50])\<close>\<close>
  "length_option =
     \<lparr>option_strings = [''-l'', ''--length''], dest = ''length'',
      type_fn = (\<lambda>s. case length_type s of
                         None \<Rightarrow> Inl Type_coercion_failure
                       | Some ns \<Rightarrow> Inr (Int_list ns)),
      default_val = Int_list [20, 50]\<rparr>"

definition offset_option :: option_decl where
  \<comment> \<open>\<open>add_argument("-o", "--offset", dest="offset", type=check_positive, default=0)\<close>\<close>
  "offset_option =
     \<lparr>option_strings = [''-o'', ''--offset''], dest = ''offset'',
      type_fn = (\<lambda>s. case check_positive s of Inl r \<Rightarrow> Inl r | Inr n \<Rightarrow> Inr (Int_val n)),
      default_val = Int_val 0\<rparr>"

definition ema_parser :: argument_parser where
  "ema_parser = \<lparr>prog = ''ema'', arguments = [length_option, offset_option]\<rparr>"

definition sma_parser :: argument_parser where
  "sma_parser = \<lparr>prog = ''sma'', arguments = [length_option, offset_option]\<rparr>"

text \<open>
  Modelled from the spec: \<open>helper_funcs.parse_known_args_and_warn\<close> is not among the
  sources. The spec (4.2) gives it as a pure function from a declared schema and the raw
  tokens to an options record or an \<open>ArgumentError\<close> naming the offending token and the
  reason (unknown flag, type coercion failure, failed validity predicate); flags are
  positional-free, each followed by its value, and a repeated flag is rejected. A flag
  that ends the tokens has no value to coerce and is rejected too. On failure the
  helper emits a warning and returns no result (\<open>None\<close>) instead of raising.
\<close>

fun parse_flags ::
  "option_decl list \<Rightarrow> namespace \<Rightarrow> string list \<Rightarrow> argument_error + namespace" where
  "parse_flags schema seen [] = Inr seen"
| "parse_flags schema seen (flag # rest) =
     (case find (\<lambda>d. flag \<in> set (option_strings d)) schema of
        None \<Rightarrow> Inl (ArgumentError flag Unknown_flag)
      | Some d \<Rightarrow>
          if dest d \<in> set (map fst seen) then Inl (ArgumentError flag Repeated_flag)
          else
            (case rest of
               [] \<Rightarrow> Inl (ArgumentError flag Missing_value)
             | v # rest' \<Rightarrow>
                 (case type_fn d v of
                    Inl r \<Rightarrow> Inl (ArgumentError v r)
                  | Inr x \<Rightarrow> parse_flags schema (seen @ [(dest d, x)]) rest')))"

definition parse_args :: "argument_parser \<Rightarrow> string list \<Rightarrow> argument_error + namespace" where
  "parse_args p tokens =
     (case parse_flags (arguments p) [] tokens of
        Inl err \<Rightarrow> Inl err
      | Inr seen \<Rightarrow>
          Inr (map (\<lambda>d. (dest d, case map_of seen (dest d) of
                                    Some v \<Rightarrow> v
                                  | None \<Rightarrow> default_val d))
                 (arguments p)))"

definition parse_known_args_and_warn ::
  "argument_parser \<Rightarrow> string list \<Rightarrow> world \<Rightarrow> namespace option \<times> world" where
  "parse_known_args_and_warn p tokens w =
     (case parse_args p tokens of
        Inl err \<Rightarrow> (None, emit (Warning (prog p) err) w)
      | Inr ns \<Rightarrow> (Some ns, w))"

text \<open>
  What the code reads from outside: the feature flag \<open>gtff.USE_ION\<close>, and the behaviour
  of the collaborators, which are not part of the controller. \<open>upstream name args\<close> is
  what the delegated function \<open>name\<close> does on the tokens \<open>args\<close> once it has parsed them;
  \<open>overlap name length offset\<close> says whether \<open>ta_overlap.ema\<close> or \<open>ta_overlap.sma\<close>
  raises, and what. \<open>default_length name\<close> and \<open>specific_options name\<close> are the default
  of \<open>--length\<close> and the further options in the schema of the delegated function \<open>name\<close>.
\<close>

record env =
  USE_ION :: bool
  upstream :: "string \<Rightarrow> string list \<Rightarrow> outcome"
  overlap :: "string \<Rightarrow> arg_value \<Rightarrow> arg_value \<Rightarrow> thrown option"
  default_length :: "string \<Rightarrow> int list"
  specific_options :: "string \<Rightarrow> option_decl list"

section \<open>The controller\<close>

record dataframe =
  columns :: "string list"
  index :: "string list"
  index_name :: "string option"
  cells :: "string list list"

definition CHOICES :: "string list" where
  "CHOICES =
     [''help'', ''q'', ''quit'', ''view'', ''summary'', ''recom'', ''pr'', ''ema'', ''sma'',
      ''vwap'', ''cci'', ''macd'', ''rsi'', ''stoch'', ''adx'', ''aroon'', ''bbands'', ''ad'',
      ''obv'']"

text \<open>
  The fields of \<open>TechnicalAnalysisController\<close>. \<open>start\<close> is a \<open>datetime\<close> or \<open>None\<close>; the
  controller only tests it and prints it as \<open>%Y-%m-%d\<close>, so the field holds that
  rendering. \<open>gst\<close> is only passed on, its type is left open.
\<close>

record 'g controller =
  stock :: dataframe
  ticker :: string
  start :: "string option"
  interval :: string
  delete_img :: bool
  gst :: 'g
  ta_parser :: cmd_parser

definition init :: "dataframe \<Rightarrow> string \<Rightarrow> string option \<Rightarrow> string \<Rightarrow> 'g \<Rightarrow> 'g controller" where
  \<comment> \<open>\<open>__init__\<close>\<close>
  "init stock' ticker' start' interval' gst' =
     \<lparr>stock = stock', ticker = ticker', start = start', interval = interval',
      delete_img = False, gst = gst',
      ta_parser = \<lparr>cmd_prog = ''ta'', cmd_choices = CHOICES\<rparr>\<rparr>"

datatype exn = SystemExit | KeyboardInterrupt | TypeError | EOFError | Exception string

text \<open>
  The exceptions of the model. \<open>TypeError\<close> is the one raised by calling the default of
  \<open>getattr\<close> with an argument, \<open>EOFError\<close> the one of \<open>input\<close>; what a collaborator
  raises under \<open>Exception\<close>, whatever its class, is \<open>Exception text\<close>. \<open>SystemExit\<close> and
  \<open>KeyboardInterrupt\<close> derive from \<open>BaseException\<close> only.
\<close>

fun exn_of :: "thrown \<Rightarrow> exn" where
  "exn_of (An_Exception msg) = Exception msg"
| "exn_of A_SystemExit = SystemExit"
| "exn_of A_KeyboardInterrupt = KeyboardInterrupt"

fun is_Exception :: "exn \<Rightarrow> bool" where
  \<comment> \<open>\<open>isinstance(x, Exception)\<close>: what \<open>except Exception\<close> catches\<close>
  "is_Exception SystemExit = False"
| "is_Exception KeyboardInterrupt = False"
| "is_Exception TypeError = True"
| "is_Exception EOFError = True"
| "is_Exception (Exception msg) = True"

fun str_exn :: "exn \<Rightarrow> string" where
  \<comment> \<open>\<open>str(x)\<close>\<close>
  "str_exn (Exception msg) = msg"
| "str_exn x = []"

text \<open>
  The control signal a handler returns: \<open>None\<close> (continue in the menu), \<open>False\<close> (quit
  the menu) or \<open>True\<close> (quit the program). A call either raises (\<open>Inl\<close>) or returns
  (\<open>Inr\<close>); the controller and the world are given back in both cases, as they are
  mutated in place.
\<close>

abbreviation CONTINUE :: "bool option" where "CONTINUE \<equiv> None"
abbreviation EXIT_MENU :: "bool option" where "EXIT_MENU \<equiv> Some False"
abbreviation EXIT_PROGRAM :: "bool option" where "EXIT_PROGRAM \<equiv> Some True"

type_synonym 'g result = "(exn + bool option) \<times> 'g controller \<times> world"

type_synonym 'g handler = "env \<Rightarrow> 'g controller \<Rightarrow> world \<Rightarrow> string list \<Rightarrow> 'g result"

definition nl :: string where
  "nl = [CHR 0x0A]"

definition help_lines :: "string list" where
  "help_lines =
     [nl @ ''Technical Analysis:'',
      ''   help        show this technical analysis menu again'',
      ''   q           quit this menu, and shows back to main menu'',
      ''   quit        quit to abandon program'',
      [],
      ''   view        view historical data and trendlines [Finviz]'',
      ''   summary     technical summary report [FinBrain API]'',
      ''   recom       recommendation based on Technical Indicators [Tradingview API]'',
      ''   pr          pattern recognition [Finnhub]'',
      [],
      ''overlap:'',
      ''   ema         exponential moving average'',
      ''   sma         simple moving average'',
      ''   vwap        volume weighted average price'',
      ''momentum:'',
      ''   cci         commodity channel index'',
      ''   macd        moving average convergence/divergence'',
      ''   rsi         relative strength index'',
      ''   stoch       stochastic oscillator'',
      ''trend:'',
      ''   adx         average directional movement index'',
      ''   aroon       aroon indicator'',
      ''volatility:'',
      ''   bbands      bollinger bands'',
      ''volume:'',
      ''   ad          chaikin accumulation/distribution line values'',
      ''   obv         on balance volume'',
      []]"

definition help_text :: "'g controller \<Rightarrow> string list" where
  \<comment> \<open>the lines \<open>print_help\<close> prints\<close>
  "help_text c =
     (let s_intraday = (if interval c = ''1440min'' then ''Daily'' else ''Intraday '' @ interval c);
          header =
            (case start c of
               Some day \<Rightarrow> nl @ s_intraday @ '' Stock: '' @ ticker c @ '' (from '' @ day @ '')''
             | None \<Rightarrow> nl @ s_intraday @ '' Stock: '' @ ticker c)
      in header # help_lines)"

definition print_help :: "'g controller \<Rightarrow> world \<Rightarrow> world" where
  "print_help c w = emits (map Print (help_text c)) w"

definition call_help :: "'g handler" where
  "call_help e c w _ = (Inr CONTINUE, c, print_help c w)"

definition call_q :: "'g handler" where
  "call_q e c w _ = (Inr EXIT_MENU, c, w)"

definition call_quit :: "'g handler" where
  "call_quit e c w _ = (Inr EXIT_PROGRAM, c, w)"

text \<open>
  Modelled from the spec: the view and indicator functions the handlers delegate to
  (\<open>finviz_view.view\<close>, \<open>finbrain_view.technical_summary_report\<close>,
  \<open>tradingview_view.print_recommendation\<close>, \<open>finnhub_view.pattern_recognition_view\<close>,
  \<open>ta_overlap.vwap\<close>, \<open>ta_momentum.cci\<close>, \<open>.macd\<close>, \<open>.rsi\<close>, \<open>.stoch\<close>, \<open>ta_trend.adx\<close>,
  \<open>.aroon\<close>, \<open>ta_volatility.bbands\<close>, \<open>ta_volume.ad\<close>, \<open>.obv\<close>) are not among the sources.
  The spec (6, 4.2) has each of them parse its own tokens against its own schema:
  \<open>--length\<close> (comma-separated integers, the default varies per command), \<open>--offset\<close>
  (a non-negative integer, default 0) and command-specific flags; on an \<open>ArgumentError\<close>
  the command is aborted with a warning. What the function does after that is the
  environment's: it returns, it reports a failure of its own and returns, or an exception
  leaves it. The session context it is given is read only. The view function leaves its
  rendered image \<open><ticker>.jpg\<close> behind (4.3).
\<close>

definition delegate_parser :: "env \<Rightarrow> string \<Rightarrow> argument_parser" where
  "delegate_parser e name =
     \<lparr>prog = name,
      arguments =
        [length_option\<lparr>default_val := Int_list (default_length e name)\<rparr>, offset_option] @
        specific_options e name\<rparr>"

definition delegate :: "env \<Rightarrow> string \<Rightarrow> string list \<Rightarrow> world \<Rightarrow> thrown option \<times> world" where
  \<comment> \<open>\<open>Some t\<close>: the exception \<open>t\<close> leaves the function\<close>
  "delegate e name other_args w =
     (case parse_known_args_and_warn (delegate_parser e name) other_args w of
        (None, w1) \<Rightarrow> (None, w1)
      | (Some ns_parser, w1) \<Rightarrow>
          (case upstream e name other_args of
             Returns \<Rightarrow> (None, emit (Ran name other_args) w1)
           | Reports f \<Rightarrow> (None, emit (Diagnostic name f) w1)
           | Raises t \<Rightarrow> (Some t, w1)))"

definition finviz_view_view ::
  "env \<Rightarrow> string list \<Rightarrow> string \<Rightarrow> world \<Rightarrow> thrown option \<times> world" where
  "finviz_view_view e other_args ticker' w =
     (case parse_known_args_and_warn (delegate_parser e ''finviz_view.view'') other_args w of
        (None, w1) \<Rightarrow> (None, w1)
      | (Some ns_parser, w1) \<Rightarrow>
          (case upstream e ''finviz_view.view'' other_args of
             Returns \<Rightarrow>
               (None,
                emit (Ran ''finviz_view.view'' other_args)
                  (w1\<lparr>files := List.insert (ticker' @ ''.jpg'') (files w1)\<rparr>))
           | Reports f \<Rightarrow> (None, emit (Diagnostic ''finviz_view.view'' f) w1)
           | Raises t \<Rightarrow> (Some t, w1)))"

definition returns_none :: "'g controller \<Rightarrow> thrown option \<times> world \<Rightarrow> 'g result" where
  \<comment> \<open>a handler whose body is one call: what the call raises leaves the handler, and when
      the call returns the handler returns \<open>None\<close>\<close>
  "returns_none c r =
     (case r of
        (None, w1) \<Rightarrow> (Inr CONTINUE, c, w1)
      | (Some t, w1) \<Rightarrow> (Inl (exn_of t), c, w1))"

definition call_view :: "'g handler" where
  \<comment> \<open>\<open>self.delete_img = True\<close> is reached when \<open>finviz_view.view\<close> has returned\<close>
  "call_view e c w other_args =
     (case finviz_view_view e other_args (ticker c) w of
        (None, w1) \<Rightarrow> (Inr CONTINUE, c\<lparr>delete_img := True\<rparr>, w1)
      | (Some t, w1) \<Rightarrow> (Inl (exn_of t), c, w1))"

definition call_summary :: "'g handler" where
  "call_summary e c w other_args =
     returns_none c (delegate e ''finbrain_view.technical_summary_report'' other_args w)"

definition call_recom :: "'g handler" where
  "call_recom e c w other_args =
     returns_none c (delegate e ''tradingview_view.print_recommendation'' other_args w)"

definition call_pr :: "'g handler" where
  "call_pr e c w other_args =
     returns_none c (delegate e ''finnhub_view.pattern_recognition_view'' other_args w)"

text \<open>
  \<open>call_ema\<close> and \<open>call_sma\<close>: everything after the parser is built runs inside
  \<open>try\<close>, and \<open>except Exception as e\<close> prints \<open>e\<close> and a newline: an exception that is
  an \<open>Exception\<close> ends there, a \<open>SystemExit\<close> or a \<open>KeyboardInterrupt\<close> passes through.
  Reading an attribute the namespace lacks would raise \<open>AttributeError\<close> there.
\<close>

definition call_ema :: "'g handler" where
  "call_ema e c w other_args =
     (case parse_known_args_and_warn ema_parser other_args w of
        (None, w1) \<Rightarrow> (Inr CONTINUE, c, w1)
      | (Some ns_parser, w1) \<Rightarrow>
          (case (map_of ns_parser ''length'', map_of ns_parser ''offset'') of
             (Some len, Some off) \<Rightarrow>
               (case overlap e ''ema'' len off of
                  Some t \<Rightarrow>
                    (if is_Exception (exn_of t) then
                       (Inr CONTINUE, c,
                        emits [Overlap ''ema'' len off, Print (str_exn (exn_of t) @ '' '' @ nl)] w1)
                     else (Inl (exn_of t), c, emit (Overlap ''ema'' len off) w1))
                | None \<Rightarrow>
                    (Inr CONTINUE, c,
                     emits ([Overlap ''ema'' len off] @ (if USE_ION e then [Plt_ion] else []) @
                            [Plt_show, Print []]) w1))
           | _ \<Rightarrow> (Inr CONTINUE, c, emit (Print (''AttributeError'' @ '' '' @ nl)) w1)))"

definition call_sma :: "'g handler" where
  "call_sma e c w other_args =
     (case parse_known_args_and_warn sma_parser other_args w of
        (None, w1) \<Rightarrow> (Inr CONTINUE, c, w1)
      | (Some ns_parser, w1) \<Rightarrow>
          (case (map_of ns_parser ''length'', map_of ns_parser ''offset'') of
             (Some len, Some off) \<Rightarrow>
               (case overlap e ''sma'' len off of
                  Some t \<Rightarrow>
                    (if is_Exception (exn_of t) then
                       (Inr CONTINUE, c,
                        emits [Overlap ''sma'' len off, Print (str_exn (exn_of t) @ '' '' @ nl)] w1)
                     else (Inl (exn_of t), c, emit (Overlap ''sma'' len off) w1))
                | None \<Rightarrow>
                    (Inr CONTINUE, c,
                     emits ([Overlap ''sma'' len off] @ (if USE_ION e then [Plt_ion] else []) @
                            [Plt_show, Print []]) w1))
           | _ \<Rightarrow> (Inr CONTINUE, c, emit (Print (''AttributeError'' @ '' '' @ nl)) w1)))"

definition call_vwap :: "'g handler" where
  "call_vwap e c w other_args = returns_none c (delegate e ''ta_overlap.vwap'' other_args w)"

definition call_cci :: "'g handler" where
  "call_cci e c w other_args = returns_none c (delegate e ''ta_momentum.cci'' other_args w)"

definition call_macd :: "'g handler" where
  "call_macd e c w other_args = returns_none c (delegate e ''ta_momentum.macd'' other_args w)"

definition call_rsi :: "'g handler" where
  "call_rsi e c w other_args = returns_none c (delegate e ''ta_momentum.rsi'' other_args w)"

definition call_stoch :: "'g handler" where
  "call_stoch e c w other_args = returns_none c (delegate e ''ta_momentum.stoch'' other_args w)"

definition call_adx :: "'g handler" where
  "call_adx e c w other_args = returns_none c (delegate e ''ta_trend.adx'' other_args w)"

definition call_aroon :: "'g handler" where
  "call_aroon e c w other_args = returns_none c (delegate e ''ta_trend.aroon'' other_args w)"

definition call_bbands :: "'g handler" where
  "call_bbands e c w other_args =
     returns_none c (delegate e ''ta_volatility.bbands'' other_args w)"

definition call_ad :: "'g handler" where
  "call_ad e c w other_args = returns_none c (delegate e ''ta_volume.ad'' other_args w)"

definition call_obv :: "'g handler" where
  "call_obv e c w other_args = returns_none c (delegate e ''ta_volume.obv'' other_args w)"

definition delegations :: "(string \<times> string) list" where
  \<comment> \<open>the commands whose handler hands the tokens to one function, and that function\<close>
  "delegations =
     [(''view'', ''finviz_view.view''),
      (''summary'', ''finbrain_view.technical_summary_report''),
      (''recom'', ''tradingview_view.print_recommendation''),
      (''pr'', ''finnhub_view.pattern_recognition_view''),
      (''vwap'', ''ta_overlap.vwap''), (''cci'', ''ta_momentum.cci''),
      (''macd'', ''ta_momentum.macd''), (''rsi'', ''ta_momentum.rsi''),
      (''stoch'', ''ta_momentum.stoch''), (''adx'', ''ta_trend.adx''),
      (''aroon'', ''ta_trend.aroon''), (''bbands'', ''ta_volatility.bbands''),
      (''ad'', ''ta_volume.ad''), (''obv'', ''ta_volume.obv'')]"

definition methods :: "(string \<times> 'g handler) list" where
  \<comment> \<open>the attributes of the controller whose names start with \<open>call_\<close>\<close>
  "methods =
     [(''call_help'', call_help), (''call_q'', call_q), (''call_quit'', call_quit),
      (''call_view'', call_view), (''call_summary'', call_summary),
      (''call_recom'', call_recom), (''call_pr'', call_pr), (''call_ema'', call_ema),
      (''call_sma'', call_sma), (''call_vwap'', call_vwap), (''call_cci'', call_cci),
      (''call_macd'', call_macd), (''call_rsi'', call_rsi), (''call_stoch'', call_stoch),
      (''call_adx'', call_adx), (''call_aroon'', call_aroon), (''call_bbands'', call_bbands),
      (''call_ad'', call_ad), (''call_obv'', call_obv)]"

definition getattr_call :: "string \<Rightarrow> 'g handler option" where
  \<comment> \<open>\<open>getattr(self, name, default)\<close>; \<open>None\<close>: no such attribute, the default is taken.\<close>
  "getattr_call name = map_of methods name"

definition pending_cleanup :: "'g controller \<Rightarrow> world \<Rightarrow> 'g controller \<times> world" where
  \<comment> \<open>the block \<open>if self.delete_img: ...\<close> of \<open>switch\<close>\<close>
  "pending_cleanup c w =
     (if delete_img c then
        (if isfile w (ticker c @ ''.jpg'') then
           (c\<lparr>delete_img := False\<rparr>, os_remove (ticker c @ ''.jpg'') w)
         else (c, w))
      else (c, w))"

text \<open>
  \<open>switch\<close>: the parser first (on its error, \<open>SystemExit\<close> leaves \<open>switch\<close> at once), the
  pending cleanup, then the handler. The default given to \<open>getattr\<close> takes no argument:
  called with \<open>other_args\<close> it would raise \<open>TypeError\<close>.
\<close>

definition switch :: "env \<Rightarrow> 'g controller \<Rightarrow> world \<Rightarrow> string \<Rightarrow> 'g result" where
  "switch e c w an_input =
     (case parse_known_args (ta_parser c) (str_split an_input) of
        Inl err \<Rightarrow> (Inl SystemExit, c, emit (Usage_error (cmd_prog (ta_parser c)) err) w)
      | Inr (cmd, other_args) \<Rightarrow>
          (case pending_cleanup c w of
             (c1, w1) \<Rightarrow>
               (case getattr_call (''call_'' @ cmd) of
                  None \<Rightarrow> (Inl TypeError, c1, w1)
                | Some h \<Rightarrow> h e c1 w1 other_args)))"

section \<open>The menu loop\<close>

text \<open>
  \<open>menu\<close> reads its lines with \<open>input\<close> or \<open>session.prompt\<close>; here they come from the
  list \<open>lines\<close>, and the unread ones are returned with the result. With no line left,
  \<open>input\<close> raises \<open>EOFError\<close>, outside the \<open>try\<close>.
\<close>

definition doesnt_exist :: string where
  "doesnt_exist = ''The command selected doesn't exist'' @ nl"

fun menu_loop ::
  "env \<Rightarrow> 'g controller \<Rightarrow> world \<Rightarrow> string list \<Rightarrow>
   (exn + bool) \<times> 'g controller \<times> world \<times> string list" where
  "menu_loop e c w [] = (Inl EOFError, c, w, [])"
| "menu_loop e c w (an_input # lines) =
     (case switch e c (emit Plt_close_all w) an_input of
        (Inr process_input, c', w') \<Rightarrow>
          (case process_input of
             Some b \<Rightarrow> (Inr b, c', w', lines)
           | None \<Rightarrow> menu_loop e c' w' lines)
      | (Inl x, c', w') \<Rightarrow>
          (if x = SystemExit then menu_loop e c' (emit (Print doesnt_exist) w') lines
           else (Inl x, c', w', lines)))"

definition menu ::
  "env \<Rightarrow> dataframe \<Rightarrow> string \<Rightarrow> string option \<Rightarrow> string \<Rightarrow> 'g \<Rightarrow> world \<Rightarrow> string list \<Rightarrow>
   (exn + bool) \<times> 'g controller \<times> world \<times> string list" where
  "menu e stock' ticker' start' interval' gst' w lines =
     (case call_help e (init stock' ticker' start' interval' gst') w [] of
        (_, ta_controller, w1) \<Rightarrow> menu_loop e ta_controller w1 lines)"

section \<open>The comparison views (\<open>comparison_analysis/marketwatch_view.py\<close>)\<close>

text \<open>
  The three views fetch a table, hand it to \<open>export_data\<close>, colour it when
  \<open>gtff.USE_COLOR\<close> is set, name the index after the timeframe unless \<open>quarter\<close> is set,
  and print it. \<open>marketwatch_model.get_financial_comparisons\<close> and
  \<open>helper_funcs.financials_colored_values\<close> are collaborators, taken as parameters.
  Each call to the presentation layer is recorded with the table it was given at the
  moment of the call (\<open>export_data\<close> has returned before the table is touched again).
\<close>

record view_env =
  USE_COLOR :: bool
  get_financial_comparisons :: "string list \<Rightarrow> string \<Rightarrow> string \<Rightarrow> bool \<Rightarrow> dataframe"
  financials_colored_values :: "string \<Rightarrow> string"

datatype view_event =
    Export_data string string string dataframe
      \<comment> \<open>\<open>export_data(export, directory, name, table)\<close>\<close>
  | Patch_pandas_text_adjustment
  | Print_rich_table dataframe "string list" bool string
      \<comment> \<open>\<open>print_rich_table(table, headers=..., show_index=..., title=...)\<close>\<close>
  | Console_print string

definition applymap :: "(string \<Rightarrow> string) \<Rightarrow> dataframe \<Rightarrow> dataframe" where
  \<comment> \<open>\<open>df.applymap(f)\<close>: a new table, \<open>f\<close> applied to every cell\<close>
  "applymap f df = df\<lparr>cells := map (map f) (cells df)\<rparr>"

definition module_dir :: string where
  \<comment> \<open>\<open>os.path.dirname(os.path.abspath(__file__))\<close>\<close>
  "module_dir = ''gamestonk_terminal/stocks/comparison_analysis''"

definition display_income_comparison ::
  "view_env \<Rightarrow> string list \<Rightarrow> string \<Rightarrow> bool \<Rightarrow> string \<Rightarrow> view_event list" where
  "display_income_comparison v similar timeframe quarter export =
     (let df_financials_compared = get_financial_comparisons v similar ''income'' timeframe quarter;
          exported = Export_data export module_dir ''income'' df_financials_compared;
          df1 = (if USE_COLOR v
                 then applymap (financials_colored_values v) df_financials_compared
                 else df_financials_compared);
          patched = (if USE_COLOR v then [Patch_pandas_text_adjustment] else []);
          df2 = (if quarter then df1 else df1\<lparr>index_name := Some timeframe\<rparr>)
      in [exported] @ patched @
         [Print_rich_table df2 (columns df2) True ''Income Data'', Console_print []])"

definition display_balance_comparison ::
  "view_env \<Rightarrow> string list \<Rightarrow> string \<Rightarrow> bool \<Rightarrow> string \<Rightarrow> view_event list" where
  "display_balance_comparison v similar timeframe quarter export =
     (let df_financials_compared = get_financial_comparisons v similar ''balance'' timeframe quarter;
          exported = Export_data export module_dir ''balance'' df_financials_compared;
          df1 = (if USE_COLOR v
                 then applymap (financials_colored_values v) df_financials_compared
                 else df_financials_compared);
          patched = (if USE_COLOR v then [Patch_pandas_text_adjustment] else []);
          df2 = (if quarter then df1 else df1\<lparr>index_name := Some timeframe\<rparr>)
      in [exported] @ patched @
         [Print_rich_table df2 (columns df2) True ''Company Comparison'', Console_print []])"

definition display_cashflow_comparison ::
  "view_env \<Rightarrow> string list \<Rightarrow> string \<Rightarrow> bool \<Rightarrow> string \<Rightarrow> view_event list" where
  "display_cashflow_comparison v similar timeframe quarter export =
     (let df_financials_compared = get_financial_comparisons v similar ''cashflow'' timeframe quarter;
          exported = Export_data export module_dir ''cashflow'' df_financials_compared;
          df1 = (if USE_COLOR v
                 then applymap (financials_colored_values v) df_financials_compared
                 else df_financials_compared);
          patched = (if USE_COLOR v then [Patch_pandas_text_adjustment] else []);
          df2 = (if quarter then df1 else df1\<lparr>index_name := Some timeframe\<rparr>)
      in [exported] @ patched @
         [Print_rich_table df2 (columns df2) True ''Cashflow Comparison'', Console_print []])"

fun exported_tables :: "view_event list \<Rightarrow> dataframe list" where
  \<comment> \<open>the tables handed to \<open>export_data\<close>, in call order\<close>
  "exported_tables [] = []"
| "exported_tables (Export_data fmt dir name df # evs) = df # exported_tables evs"
| "exported_tables (ev # evs) = exported_tables evs"

fun rendered_tables :: "view_event list \<Rightarrow> dataframe list" where
  \<comment> \<open>the tables printed to the console, in call order\<close>
  "rendered_tables [] = []"
| "rendered_tables (Print_rich_table df headers show_index title # evs) = df # rendered_tables evs"
| "rendered_tables (ev # evs) = rendered_tables evs"

section \<open>Sample values\<close>

definition sample_env :: env where
  "sample_env = \<lparr>USE_ION = False, upstream = (\<lambda>name other_args. Returns),
                  overlap = (\<lambda>name len off. None),
                  default_length = (\<lambda>name. [14]), specific_options = (\<lambda>name. [])\<rparr>"


definition raising_env :: env where
  \<comment> \<open>the delegated functions raise what went wrong; the user interrupts \<open>ta_overlap\<close>\<close>
  "raising_env = \<lparr>USE_ION = False,
                   upstream = (\<lambda>name other_args. Raises (An_Exception ''HTTP 503'')),
                   overlap = (\<lambda>name len off. Some A_KeyboardInterrupt),
                   default_length = (\<lambda>name. [14]), specific_options = (\<lambda>name. [])\<rparr>"

definition sample_table :: dataframe where
  "sample_table =
     \<lparr>columns = [''GME'', ''AMC''], index = [''Sales/Revenue'', ''Net Income''],
      index_name = None, cells = [[''5.09B'', ''1.24B''], [''(215M)'', ''(4.59B)'']]\<rparr>"

definition sample_world :: world where
  "sample_world = \<lparr>files = [], events = []\<rparr>"

definition sample_world_img :: world where
  \<comment> \<open>the image of the view command is on disk\<close>
  "sample_world_img = \<lparr>files = [''GME.jpg''], events = []\<rparr>"

definition sample_controller :: "unit controller" where
  "sample_controller = init sample_table ''GME'' (Some ''2021-01-04'') ''1440min'' ()"

definition sample_view_env :: view_env where
  "sample_view_env =
     \<lparr>USE_COLOR = False,
      get_financial_comparisons = (\<lambda>similar statement timeframe quarter. sample_table),
      financials_colored_values = (\<lambda>val. ''[red]'' @ val @ ''[/red]'')\<rparr>"

section \<open>Facts about the dispatch parser and the method table\<close>


lemma no_dash_not_option: "ch \<noteq> CHR ''-'' \<Longrightarrow> \<not> parse_optional (ch # cs) \<and> ch # cs \<noteq> ''--''"
  by (auto simp: parse_optional_def)

lemma parse_known_args_plain:
  assumes "\<not> parse_optional t" "t \<noteq> ''--''"
  shows "parse_known_args p (t # ts) =
           (if t \<in> set (cmd_choices p)
            then Inr (t, case ts of [] \<Rightarrow> [] | b # ts' \<Rightarrow> if b = ''--'' then ts' else ts)
            else Inl (Invalid_choice t))"
  using assms by (simp add: parse_known_args_def)

lemma parse_known_args_accepts:
  "parse_known_args p args = Inr (cmd, other_args) \<Longrightarrow> cmd \<in> set (cmd_choices p)"
  by (auto simp: parse_known_args_def split: prod.splits option.splits if_splits)

lemma methods_cover:
  "name \<in> set CHOICES \<Longrightarrow> \<exists>h. (getattr_call (''call_'' @ name) :: 'g handler option) = Some h"
  by (auto simp: CHOICES_def getattr_call_def methods_def)

lemma switch_rejected:
  "parse_known_args (ta_parser c) (str_split an_input) = Inl err \<Longrightarrow>
   switch e c w an_input = (Inl SystemExit, c, emit (Usage_error (cmd_prog (ta_parser c)) err) w)"
  by (simp add: switch_def)

lemma switch_accepted:
  "parse_known_args (ta_parser c) (str_split an_input) = Inr (cmd, other_args) \<Longrightarrow>
   getattr_call (''call_'' @ cmd) = Some h \<Longrightarrow>
   switch e c w an_input = h e (fst (pending_cleanup c w)) (snd (pending_cleanup c w)) other_args"
  by (simp add: switch_def split: prod.splits)

lemma exn_of_not_TypeError [simp]: "exn_of t \<noteq> TypeError"
  by (cases t) simp_all

lemma fst_returns_none:
  "fst (returns_none c r) = (case fst r of None \<Rightarrow> Inr CONTINUE | Some t \<Rightarrow> Inl (exn_of t))"
  by (simp add: returns_none_def split: prod.splits option.splits)

lemma frame_returns_none: "fst (snd (returns_none c r)) = c"
  by (simp add: returns_none_def split: prod.splits option.splits)



lemma fst_call_view:
  "fst (call_view e c w a) =
     (case fst (finviz_view_view e a (ticker c) w) of
        None \<Rightarrow> Inr CONTINUE
      | Some t \<Rightarrow> Inl (exn_of t))"
  by (simp add: call_view_def split: prod.splits option.splits)

lemma frame_call_view:
  "(fst (snd (call_view e c w a)))\<lparr>delete_img := d\<rparr> = c\<lparr>delete_img := d\<rparr>"
  by (simp add: call_view_def split: prod.splits option.splits)

lemma frame_call_ema: "fst (snd (call_ema e c w a)) = c"
  by (simp add: call_ema_def split: prod.splits option.splits)

lemma frame_call_sma: "fst (snd (call_sma e c w a)) = c"
  by (simp add: call_sma_def split: prod.splits option.splits)

lemma call_ema_outcome:
  "fst (call_ema e c w a) = Inr CONTINUE
   \<or> (\<exists>len off t. overlap e ''ema'' len off = Some t \<and> \<not> is_Exception (exn_of t)
         \<and> fst (call_ema e c w a) = Inl (exn_of t))"
  by (auto simp: call_ema_def split: prod.splits option.splits)

lemma call_sma_outcome:
  "fst (call_sma e c w a) = Inr CONTINUE
   \<or> (\<exists>len off t. overlap e ''sma'' len off = Some t \<and> \<not> is_Exception (exn_of t)
         \<and> fst (call_sma e c w a) = Inl (exn_of t))"
  by (auto simp: call_sma_def split: prod.splits option.splits)

lemma call_ema_no_type_error: "fst (call_ema e c w a) \<noteq> Inl TypeError"
  using call_ema_outcome [of e c w a] by auto

lemma call_sma_no_type_error: "fst (call_sma e c w a) \<noteq> Inl TypeError"
  using call_sma_outcome [of e c w a] by auto

lemmas delegating_defs =
  call_summary_def call_recom_def call_pr_def call_vwap_def call_cci_def call_macd_def
  call_rsi_def call_stoch_def call_adx_def call_aroon_def call_bbands_def call_ad_def
  call_obv_def

lemma methods_no_type_error:
  assumes "(name, h) \<in> set methods"
  shows "fst (h e c w a) \<noteq> Inl TypeError"
  using assms unfolding methods_def
  by (auto simp: delegating_defs call_help_def call_q_def call_quit_def fst_call_view
      fst_returns_none call_ema_no_type_error call_sma_no_type_error split: option.splits)

lemma methods_frame:
  assumes "(name, h) \<in> set methods"
  shows "(fst (snd (h e c w a)))\<lparr>delete_img := d\<rparr> = c\<lparr>delete_img := d\<rparr>"
  using assms unfolding methods_def
  by (auto simp: delegating_defs call_help_def call_q_def call_quit_def frame_call_view
      frame_returns_none frame_call_ema frame_call_sma)


lemma choices_partition:
  "cmd \<in> set CHOICES \<longleftrightarrow>
     cmd \<in> {''help'', ''q'', ''quit''} \<or> cmd \<in> {''ema'', ''sma''} \<or> cmd \<in> fst ` set delegations"
  by (auto simp: CHOICES_def delegations_def)

lemma getattr_call_methods: "getattr_call name = Some h \<Longrightarrow> (name, h) \<in> set methods"
  unfolding getattr_call_def by (rule map_of_SomeD)

lemma pending_cleanup_frame:
  "(fst (pending_cleanup c w))\<lparr>delete_img := d\<rparr> = c\<lparr>delete_img := d\<rparr>
   \<and> ta_parser (fst (pending_cleanup c w)) = ta_parser c"
  by (simp add: pending_cleanup_def)

lemmas split_eval = str_split_def isspace_def

lemmas parser_eval = parse_known_args_def parse_optional_def negative_number_def digit_val_def

lemmas option_eval = parse_args_def ema_parser_def sma_parser_def length_option_def
  offset_option_def length_type_def check_positive_def py_int_def int_strip_def int_space_def
  max_str_digits_def
  digit_val_def

lemma fallback_would_raise:
  "parse_known_args (ta_parser c) (str_split an_input) = Inr (cmd, other_args) \<Longrightarrow>
   getattr_call (''call_'' @ cmd) = (None :: 'g handler option) \<Longrightarrow>
   fst (switch e (c :: 'g controller) w an_input) = Inl TypeError"
  by (simp add: switch_def split: prod.splits)

lemma parse_length_only:
  "p \<in> {ema_parser, sma_parser} \<Longrightarrow> flag \<in> {''-l'', ''--length''} \<Longrightarrow>
   parse_args p [flag, s] =
     (case length_type s of
        None \<Rightarrow> Inl (ArgumentError s Type_coercion_failure)
      | Some ns \<Rightarrow> Inr [(''length'', Int_list ns), (''offset'', Int_val 0)])"
  by (auto simp: parse_args_def ema_parser_def sma_parser_def length_option_def
      offset_option_def split: option.splits)

lemma parse_offset_only:
  "p \<in> {ema_parser, sma_parser} \<Longrightarrow> flag \<in> {''-o'', ''--offset''} \<Longrightarrow>
   parse_args p [flag, s] =
     (case py_int s of
        None \<Rightarrow> Inl (ArgumentError s Type_coercion_failure)
      | Some n \<Rightarrow>
          if n < 0 then Inl (ArgumentError s Failed_validity)
          else Inr [(''length'', Int_list [20, 50]), (''offset'', Int_val n)])"
  by (auto simp: parse_args_def ema_parser_def sma_parser_def length_option_def
      offset_option_def check_positive_def split: option.splits)

lemma parse_delegate_defaults:
  "\<exists>ns. parse_args (delegate_parser e fn) [] = Inr ns
        \<and> map_of ns ''length'' = Some (Int_list (default_length e fn))
        \<and> map_of ns ''offset'' = Some (Int_val 0)"
  by (simp add: parse_args_def delegate_parser_def length_option_def offset_option_def)

lemma parse_delegate_length:
  assumes "flag \<in> {''-l'', ''--length''}"
  shows "case length_type s of
           None \<Rightarrow> parse_args (delegate_parser e fn) [flag, s] =
                    Inl (ArgumentError s Type_coercion_failure)
         | Some xs \<Rightarrow>
             (\<exists>ns. parse_args (delegate_parser e fn) [flag, s] = Inr ns
                  \<and> map_of ns ''length'' = Some (Int_list xs)
                  \<and> map_of ns ''offset'' = Some (Int_val 0))"
  using assms
  by (auto simp: parse_args_def delegate_parser_def length_option_def offset_option_def
      split: option.splits)

lemma parse_delegate_offset:
  assumes "flag \<in> {''-o'', ''--offset''}"
  shows "case py_int s of
           None \<Rightarrow> parse_args (delegate_parser e fn) [flag, s] =
                    Inl (ArgumentError s Type_coercion_failure)
         | Some n \<Rightarrow>
             if n < 0
             then parse_args (delegate_parser e fn) [flag, s] =
                    Inl (ArgumentError s Failed_validity)
             else (\<exists>ns. parse_args (delegate_parser e fn) [flag, s] = Inr ns
                  \<and> map_of ns ''length'' = Some (Int_list (default_length e fn))
                  \<and> map_of ns ''offset'' = Some (Int_val n))"
  using assms
  by (auto simp: parse_args_def delegate_parser_def length_option_def offset_option_def
      check_positive_def split: option.splits)

lemma delegating_rejects:
  assumes "(cmd, fn) \<in> set delegations"
    and "getattr_call (''call_'' @ cmd) = Some h"
    and "parse_args (delegate_parser e fn) a = Inl err"
  shows "fst (h e c w a) = Inr CONTINUE \<and> snd (snd (h e c w a)) = emit (Warning fn err) w"
  using assms unfolding delegations_def getattr_call_def methods_def
  by (auto simp: delegating_defs call_view_def finviz_view_view_def returns_none_def
      delegate_def parse_known_args_and_warn_def delegate_parser_def)

section \<open>Unregistered commands\<close>

text \<open>
  C1, as stated: for every line whose first token is not a registered command name,
  \<open>switch\<close> reports an unrecognized-command diagnostic and returns \<open>CONTINUE\<close> without
  raising. It does not: on the line \<open>bogus\<close> the parser's \<open>error\<close> raises \<open>SystemExit\<close>
  out of \<open>switch\<close>; and on \<open>-x q\<close>, whose first token is no command either, the parser
  sets the unknown option aside and \<open>q\<close> is dispatched.
\<close>

theorem bogus_raises_system_exit:
  "fst (switch sample_env sample_controller sample_world ''bogus'') = Inl SystemExit
   \<and> fst (switch sample_env sample_controller sample_world ''-x q'') = Inr EXIT_MENU"
  by (simp add: switch_def parser_eval split_eval sample_controller_def init_def CHOICES_def
      pending_cleanup_def getattr_call_def methods_def call_q_def)

text \<open>
  C1, amended: for every line whose first token does not start with \<open>-\<close> and is not a
  registered command name, \<open>switch\<close> reports the invalid choice on stderr and raises
  \<open>SystemExit\<close>, with the controller unchanged and no handler run; the loop of \<open>menu\<close>
  catches it, prints that the command does not exist, and goes on with the next line.
\<close>

theorem switch_unregistered_raises:
  assumes "str_split an_input = (ch # cs) # ts"
    and "ch \<noteq> CHR ''-''"
    and "ch # cs \<notin> set (cmd_choices (ta_parser c))"
  shows "switch e c w an_input =
           (Inl SystemExit, c,
            emit (Usage_error (cmd_prog (ta_parser c)) (Invalid_choice (ch # cs))) w)
         \<and> menu_loop e c w (an_input # lines) =
           menu_loop e c
             (emits [Plt_close_all,
                     Usage_error (cmd_prog (ta_parser c)) (Invalid_choice (ch # cs)),
                     Print doesnt_exist] w) lines"
proof -
  have rejected:
    "parse_known_args (ta_parser c) (str_split an_input) = Inl (Invalid_choice (ch # cs))"
    using assms no_dash_not_option [of ch cs] by (simp add: parse_known_args_plain)
  have raised: "\<And>w'. switch e c w' an_input =
           (Inl SystemExit, c,
            emit (Usage_error (cmd_prog (ta_parser c)) (Invalid_choice (ch # cs))) w')"
    using rejected by (simp add: switch_rejected)
  show ?thesis
    by (simp add: raised emit_def emits_def)
qed

theorem switch_unregistered_raises_witness:
  "switch sample_env sample_controller sample_world ''bogus'' =
     (Inl SystemExit, sample_controller,
      emit (Usage_error ''ta'' (Invalid_choice ''bogus'')) sample_world)
   \<and> menu_loop sample_env sample_controller sample_world [''bogus''] =
     (Inl EOFError, sample_controller,
      emits [Plt_close_all, Usage_error ''ta'' (Invalid_choice ''bogus''), Print doesnt_exist]
        sample_world, [])"
  using switch_unregistered_raises [of "''bogus''" "CHR ''b''" "''ogus''" "[]" sample_controller
      sample_env sample_world "[]"]
  by (simp add: split_eval sample_controller_def init_def CHOICES_def)

section \<open>Registered commands\<close>




section \<open>The scenario of the menu loop\<close>

text \<open>
  C3: \<open>call_q\<close> returns \<open>False\<close>, \<open>call_quit\<close> returns \<open>True\<close> and \<open>call_help\<close> returns
  \<open>None\<close>; on the lines \<open>bogus\<close>, \<open>help\<close>, \<open>q\<close> the menu (which prints the help once
  before its loop) reports the unknown command, prints the help text, and returns \<open>False\<close>
  after three dispatches: three lines are read, the rest is left unread.
\<close>

theorem menu_scenario:
  "menu e stock' ticker' start' interval' gst' w (''bogus'' # ''help'' # ''q'' # lines) =
     (Inr False,
      init stock' ticker' start' interval' gst',
      emits (map Print (help_text (init stock' ticker' start' interval' gst')) @
             [Plt_close_all, Usage_error ''ta'' (Invalid_choice ''bogus''), Print doesnt_exist,
              Plt_close_all] @
             map Print (help_text (init stock' ticker' start' interval' gst')) @
             [Plt_close_all]) w,
      lines)
   \<and> fst (call_q e c w' other_args) = Inr EXIT_MENU
   \<and> fst (call_quit e c w' other_args) = Inr EXIT_PROGRAM
   \<and> fst (call_help e c w' other_args) = Inr CONTINUE"
proof -
  let ?c = "init stock' ticker' start' interval' gst'"
  have fields: "cmd_choices (ta_parser ?c) = CHOICES" "cmd_prog (ta_parser ?c) = ''ta''"
    "delete_img ?c = False"
    by (simp_all add: init_def)
  have sw_bogus: "\<And>w'. switch e ?c w' ''bogus'' =
      (Inl SystemExit, ?c, emit (Usage_error ''ta'' (Invalid_choice ''bogus'')) w')"
    by (simp add: switch_def split_eval parser_eval fields CHOICES_def)
  have sw_help: "\<And>w'. switch e ?c w' ''help'' = (Inr CONTINUE, ?c, print_help ?c w')"
    by (simp add: switch_def split_eval parser_eval fields CHOICES_def pending_cleanup_def
        getattr_call_def methods_def call_help_def)
  have sw_q: "\<And>w'. switch e ?c w' ''q'' = (Inr EXIT_MENU, ?c, w')"
    by (simp add: switch_def split_eval parser_eval fields CHOICES_def pending_cleanup_def
        getattr_call_def methods_def call_q_def)
  show ?thesis
    by (simp add: menu_def call_help_def call_q_def call_quit_def sw_bogus sw_help sw_q
        print_help_def emit_def emits_def)
qed

section \<open>The pending cleanup\<close>

text \<open>
  C4, as stated: once the flag \<open>delete_img\<close> is set, the next dispatch deletes
  \<open><ticker>.jpg\<close> before its own command, and clears the flag whether the file was there
  or not. With the file absent the flag is not cleared: \<open>delete_img = False\<close> stands
  under the test \<open>os.path.isfile\<close>.
\<close>

theorem flag_kept_when_image_absent:
  "fst (switch sample_env (sample_controller\<lparr>delete_img := True\<rparr>) sample_world ''help'')
     = Inr CONTINUE
   \<and> delete_img
       (fst (snd (switch sample_env (sample_controller\<lparr>delete_img := True\<rparr>) sample_world
          ''help'')))"
  by (simp add: switch_def split_eval parser_eval sample_controller_def init_def CHOICES_def
      getattr_call_def methods_def isfile_def sample_world_def pending_cleanup_def call_help_def)

text \<open>
  C4, amended: \<open>call_view\<close> sets the flag when it returns (an exception out of
  \<open>finviz_view.view\<close> leaves \<open>call_view\<close> before the assignment). With the flag set, a
  dispatch whose line the command parser accepts first looks for \<open><ticker>.jpg\<close>: if the
  file is there it is removed and the flag cleared, and the command's handler runs on that
  state; if the file is absent nothing is raised, the flag stays set, and the handler runs
  on the state as it was.
\<close>

theorem pending_cleanup_before_command:
  assumes "delete_img c"
    and "parse_known_args (ta_parser c) (str_split an_input) = Inr (cmd, other_args)"
    and "getattr_call (''call_'' @ cmd) = Some h"
  shows "switch e c w an_input =
           (if isfile w (ticker c @ ''.jpg'')
            then h e (c\<lparr>delete_img := False\<rparr>) (os_remove (ticker c @ ''.jpg'') w) other_args
            else h e c w other_args)
         \<and> \<not> isfile (os_remove (ticker c @ ''.jpg'') w) (ticker c @ ''.jpg'')
         \<and> fst (snd (call_view e c' w' other_args')) =
             (if fst (call_view e c' w' other_args') = Inr CONTINUE
              then c'\<lparr>delete_img := True\<rparr> else c')"
  using assms
  by (simp add: switch_accepted pending_cleanup_def isfile_def os_remove_def emit_def emits_def
      call_view_def split: prod.splits option.splits)

theorem pending_cleanup_before_command_witness:
  "switch sample_env (sample_controller\<lparr>delete_img := True\<rparr>) sample_world_img ''help'' =
     call_help sample_env (sample_controller\<lparr>delete_img := False\<rparr>)
       (os_remove ''GME.jpg'' sample_world_img) []
   \<and> switch sample_env (sample_controller\<lparr>delete_img := True\<rparr>) sample_world ''help'' =
     call_help sample_env (sample_controller\<lparr>delete_img := True\<rparr>) sample_world []
   \<and> fst (snd (call_view sample_env sample_controller sample_world [])) =
     sample_controller\<lparr>delete_img := True\<rparr>
   \<and> fst (snd (call_view raising_env sample_controller sample_world [])) = sample_controller"
proof -
  have accepted: "parse_known_args (ta_parser (sample_controller\<lparr>delete_img := True\<rparr>))
      (str_split ''help'') = Inr (''help'', [])"
    by (simp add: split_eval parser_eval sample_controller_def init_def CHOICES_def)
  have looked_up: "getattr_call (''call_'' @ ''help'') = Some (call_help :: unit handler)"
    by (simp add: getattr_call_def methods_def)
  have flagged: "delete_img (sample_controller\<lparr>delete_img := True\<rparr>)"
    by simp
  have returned: "fst (call_view sample_env sample_controller sample_world []) = Inr CONTINUE"
    "fst (call_view raising_env sample_controller sample_world []) \<noteq> Inr CONTINUE"
    by (simp_all add: call_view_def finviz_view_view_def parse_known_args_and_warn_def
        parse_args_def delegate_parser_def length_option_def offset_option_def sample_env_def
        raising_env_def)
  show ?thesis
    using pending_cleanup_before_command [OF flagged accepted looked_up, where e = sample_env
        and w = sample_world_img and c' = sample_controller and w' = sample_world
        and other_args' = "[]"]
      pending_cleanup_before_command [OF flagged accepted looked_up, where e = raising_env
        and w = sample_world and c' = sample_controller and w' = sample_world
        and other_args' = "[]"]
      pending_cleanup_before_command [OF flagged accepted looked_up, where e = sample_env
        and w = sample_world and c' = sample_controller and w' = sample_world
        and other_args' = "[]"]
      returned
    by (simp add: isfile_def sample_world_img_def sample_world_def sample_controller_def
        init_def call_help_def)
qed

section \<open>The options of the commands\<close>

text \<open>
  C5: in the parsers of \<open>ema\<close> and \<open>sma\<close>, the \<open>--length\<close> value \<open>20,50\<close> is coerced to
  the list \<open>[20, 50]\<close>; the value \<open>20,abc\<close> gives an \<open>ArgumentError\<close> (\<open>int\<close> fails on
  \<open>abc\<close>) and no options record.
\<close>

theorem length_coercion:
  "length_type ''20,50'' = Some [20, 50]
   \<and> py_int ''abc'' = None
   \<and> length_type ''20,abc'' = None
   \<and> parse_args ema_parser [''--length'', ''20,50''] =
       Inr [(''length'', Int_list [20, 50]), (''offset'', Int_val 0)]
   \<and> parse_args sma_parser [''--length'', ''20,50''] =
       Inr [(''length'', Int_list [20, 50]), (''offset'', Int_val 0)]
   \<and> parse_args ema_parser [''--length'', ''20,abc''] =
       Inl (ArgumentError ''20,abc'' Type_coercion_failure)
   \<and> parse_args sma_parser [''--length'', ''20,abc''] =
       Inl (ArgumentError ''20,abc'' Type_coercion_failure)"
  by (simp add: option_eval)

text \<open>
  C6: the tokens \<open>--length 10,30 --offset -1\<close> of \<open>ema\<close> give an \<open>ArgumentError\<close> for the
  offset \<open>-1\<close>, which fails the validity predicate; \<open>call_ema\<close> and \<open>switch\<close> return
  \<open>CONTINUE\<close>, and all the dispatch adds to the pending cleanup is the parser's warning:
  \<open>ta_overlap.ema\<close> and \<open>plt.show\<close> are not called.
\<close>

theorem ema_negative_offset:
  assumes "''ema'' \<in> set (cmd_choices (ta_parser c))"
  shows "parse_args ema_parser [''--length'', ''10,30'', ''--offset'', ''-1''] =
           Inl (ArgumentError ''-1'' Failed_validity)
         \<and> call_ema e c w [''--length'', ''10,30'', ''--offset'', ''-1''] =
           (Inr CONTINUE, c, emit (Warning ''ema'' (ArgumentError ''-1'' Failed_validity)) w)
         \<and> switch e c w ''ema --length 10,30 --offset -1'' =
           (Inr CONTINUE, fst (pending_cleanup c w),
            emit (Warning ''ema'' (ArgumentError ''-1'' Failed_validity))
              (snd (pending_cleanup c w)))"
proof -
  have parsed: "parse_args ema_parser [''--length'', ''10,30'', ''--offset'', ''-1''] =
           Inl (ArgumentError ''-1'' Failed_validity)"
    by (simp add: option_eval)
  have handler: "\<And>c' w'. call_ema e c' w' [''--length'', ''10,30'', ''--offset'', ''-1''] =
           (Inr CONTINUE, c', emit (Warning ''ema'' (ArgumentError ''-1'' Failed_validity)) w')"
    by (simp add: call_ema_def parse_known_args_and_warn_def parsed) (simp add: ema_parser_def)
  have tokens: "str_split ''ema --length 10,30 --offset -1'' =
      [''ema'', ''--length'', ''10,30'', ''--offset'', ''-1'']"
    by (simp add: split_eval)
  have accepted: "parse_known_args (ta_parser c) (str_split ''ema --length 10,30 --offset -1'') =
      Inr (''ema'', [''--length'', ''10,30'', ''--offset'', ''-1''])"
    using assms by (simp add: tokens parser_eval)
  have "getattr_call (''call_'' @ ''ema'') = Some (call_ema :: 'a handler)"
    by (simp add: getattr_call_def methods_def)
  with accepted have dispatched: "switch e c w ''ema --length 10,30 --offset -1'' =
      call_ema e (fst (pending_cleanup c w)) (snd (pending_cleanup c w))
        [''--length'', ''10,30'', ''--offset'', ''-1'']"
    by (rule switch_accepted)
  show ?thesis by (simp add: parsed handler dispatched)
qed

theorem ema_negative_offset_witness:
  "switch sample_env sample_controller sample_world ''ema --length 10,30 --offset -1'' =
     (Inr CONTINUE, sample_controller,
      sample_world\<lparr>events := [Warning ''ema'' (ArgumentError ''-1'' Failed_validity)]\<rparr>)"
  using ema_negative_offset [of sample_controller sample_env sample_world]
  by (simp add: sample_controller_def init_def CHOICES_def pending_cleanup_def emit_def
      emits_def sample_world_def)

text \<open>
  C8, as stated: every registered command accepts \<open>--length\<close> (comma-separated
  integers) and \<open>--offset\<close> (a non-negative integer). \<open>q\<close> does not: it never looks at its
  tokens, so a malformed length and a negative offset pass unnoticed.
\<close>

theorem quit_takes_no_options:
  "switch sample_env sample_controller sample_world ''q --length 20,abc --offset -1'' =
     (Inr EXIT_MENU, sample_controller, sample_world)"
  by (simp add: switch_def split_eval parser_eval sample_controller_def init_def CHOICES_def
      getattr_call_def methods_def pending_cleanup_def call_q_def)

text \<open>
  C8, amended: every registered command other than \<open>help\<close>, \<open>q\<close> and \<open>quit\<close> accepts
  \<open>-l\<close>/\<open>--length\<close>, comma-separated integers with a default per command (\<open>[20, 50]\<close>
  for \<open>ema\<close> and \<open>sma\<close>), and \<open>-o\<close>/\<open>--offset\<close>, a non-negative integer with default
  \<open>0\<close>; with no tokens the parsers of \<open>ema\<close> and \<open>sma\<close> yield length \<open>[20, 50]\<close> and offset
  \<open>0\<close>. For the fourteen delegating commands the parser is the one of the delegated
  function, and tokens it refuses end the dispatch with its warning. \<open>help\<close>, \<open>q\<close> and
  \<open>quit\<close> declare no option and ignore their tokens.
\<close>

theorem length_and_offset_options:
  "(\<forall>p \<in> {ema_parser, sma_parser}.
      parse_args p [] = Inr [(''length'', Int_list [20, 50]), (''offset'', Int_val 0)]
      \<and> (\<forall>flag \<in> {''-l'', ''--length''}.
            parse_args p [flag, s] =
              (case those (map py_int (split_sep CHR '','' [] s)) of
                 None \<Rightarrow> Inl (ArgumentError s Type_coercion_failure)
               | Some ns \<Rightarrow> Inr [(''length'', Int_list ns), (''offset'', Int_val 0)]))
      \<and> (\<forall>flag \<in> {''-o'', ''--offset''}.
            parse_args p [flag, s] =
              (case py_int s of
                 None \<Rightarrow> Inl (ArgumentError s Type_coercion_failure)
               | Some n \<Rightarrow>
                   if n < 0 then Inl (ArgumentError s Failed_validity)
                   else Inr [(''length'', Int_list [20, 50]), (''offset'', Int_val n)])))
   \<and> (\<forall>(cmd, fn) \<in> set delegations.
        (\<exists>ns. parse_args (delegate_parser e fn) [] = Inr ns
             \<and> map_of ns ''length'' = Some (Int_list (default_length e fn))
             \<and> map_of ns ''offset'' = Some (Int_val 0))
        \<and> (\<forall>flag \<in> {''-l'', ''--length''}.
              case those (map py_int (split_sep CHR '','' [] s)) of
                None \<Rightarrow> parse_args (delegate_parser e fn) [flag, s] =
                         Inl (ArgumentError s Type_coercion_failure)
              | Some xs \<Rightarrow>
                  (\<exists>ns. parse_args (delegate_parser e fn) [flag, s] = Inr ns
                       \<and> map_of ns ''length'' = Some (Int_list xs)
                       \<and> map_of ns ''offset'' = Some (Int_val 0)))
        \<and> (\<forall>flag \<in> {''-o'', ''--offset''}.
              case py_int s of
                None \<Rightarrow> parse_args (delegate_parser e fn) [flag, s] =
                         Inl (ArgumentError s Type_coercion_failure)
              | Some n \<Rightarrow>
                  if n < 0
                  then parse_args (delegate_parser e fn) [flag, s] =
                         Inl (ArgumentError s Failed_validity)
                  else (\<exists>ns. parse_args (delegate_parser e fn) [flag, s] = Inr ns
                       \<and> map_of ns ''length'' = Some (Int_list (default_length e fn))
                       \<and> map_of ns ''offset'' = Some (Int_val n)))
        \<and> (\<forall>h err. getattr_call (''call_'' @ cmd) = Some h
              \<and> parse_args (delegate_parser e fn) other_args = Inl err
              \<longrightarrow> fst (h e c w other_args) = Inr CONTINUE
                  \<and> snd (snd (h e c w other_args)) = emit (Warning fn err) w))
   \<and> set CHOICES = {''help'', ''q'', ''quit''} \<union> {''ema'', ''sma''} \<union> fst ` set delegations
   \<and> call_help e c w other_args = call_help e c w []
   \<and> call_q e c w other_args = call_q e c w []
   \<and> call_quit e c w other_args = call_quit e c w []"
proof -
  have averages: "\<forall>p \<in> {ema_parser, sma_parser}.
      parse_args p [] = Inr [(''length'', Int_list [20, 50]), (''offset'', Int_val 0)]
      \<and> (\<forall>flag \<in> {''-l'', ''--length''}.
            parse_args p [flag, s] =
              (case those (map py_int (split_sep CHR '','' [] s)) of
                 None \<Rightarrow> Inl (ArgumentError s Type_coercion_failure)
               | Some ns \<Rightarrow> Inr [(''length'', Int_list ns), (''offset'', Int_val 0)]))
      \<and> (\<forall>flag \<in> {''-o'', ''--offset''}.
            parse_args p [flag, s] =
              (case py_int s of
                 None \<Rightarrow> Inl (ArgumentError s Type_coercion_failure)
               | Some n \<Rightarrow>
                   if n < 0 then Inl (ArgumentError s Failed_validity)
                   else Inr [(''length'', Int_list [20, 50]), (''offset'', Int_val n)]))"
  proof (intro ballI conjI)
    fix p :: argument_parser
    assume "p \<in> {ema_parser, sma_parser}"
    then show "parse_args p [] = Inr [(''length'', Int_list [20, 50]), (''offset'', Int_val 0)]"
      by (auto simp: parse_args_def ema_parser_def sma_parser_def length_option_def
          offset_option_def)
  next
    fix p :: argument_parser and flag :: string
    assume "p \<in> {ema_parser, sma_parser}" "flag \<in> {''-l'', ''--length''}"
    then show "parse_args p [flag, s] =
              (case those (map py_int (split_sep CHR '','' [] s)) of
                 None \<Rightarrow> Inl (ArgumentError s Type_coercion_failure)
               | Some ns \<Rightarrow> Inr [(''length'', Int_list ns), (''offset'', Int_val 0)])"
      using parse_length_only [where p = p and flag = flag and s = s]
      by (simp add: length_type_def)
  next
    fix p :: argument_parser and flag :: string
    assume "p \<in> {ema_parser, sma_parser}" "flag \<in> {''-o'', ''--offset''}"
    then show "parse_args p [flag, s] =
              (case py_int s of
                 None \<Rightarrow> Inl (ArgumentError s Type_coercion_failure)
               | Some n \<Rightarrow>
                   if n < 0 then Inl (ArgumentError s Failed_validity)
                   else Inr [(''length'', Int_list [20, 50]), (''offset'', Int_val n)])"
      by (rule parse_offset_only)
  qed
  have delegated: "\<forall>(cmd, fn) \<in> set delegations.
        (\<exists>ns. parse_args (delegate_parser e fn) [] = Inr ns
             \<and> map_of ns ''length'' = Some (Int_list (default_length e fn))
             \<and> map_of ns ''offset'' = Some (Int_val 0))
        \<and> (\<forall>flag \<in> {''-l'', ''--length''}.
              case those (map py_int (split_sep CHR '','' [] s)) of
                None \<Rightarrow> parse_args (delegate_parser e fn) [flag, s] =
                         Inl (ArgumentError s Type_coercion_failure)
              | Some xs \<Rightarrow>
                  (\<exists>ns. parse_args (delegate_parser e fn) [flag, s] = Inr ns
                       \<and> map_of ns ''length'' = Some (Int_list xs)
                       \<and> map_of ns ''offset'' = Some (Int_val 0)))
        \<and> (\<forall>flag \<in> {''-o'', ''--offset''}.
              case py_int s of
                None \<Rightarrow> parse_args (delegate_parser e fn) [flag, s] =
                         Inl (ArgumentError s Type_coercion_failure)
              | Some n \<Rightarrow>
                  if n < 0
                  then parse_args (delegate_parser e fn) [flag, s] =
                         Inl (ArgumentError s Failed_validity)
                  else (\<exists>ns. parse_args (delegate_parser e fn) [flag, s] = Inr ns
                       \<and> map_of ns ''length'' = Some (Int_list (default_length e fn))
                       \<and> map_of ns ''offset'' = Some (Int_val n)))
        \<and> (\<forall>h err. getattr_call (''call_'' @ cmd) = Some h
              \<and> parse_args (delegate_parser e fn) other_args = Inl err
              \<longrightarrow> fst (h e c w other_args) = Inr CONTINUE
                  \<and> snd (snd (h e c w other_args)) = emit (Warning fn err) w)"
  proof (intro ballI, unfold split_paired_all case_prod_conv, intro conjI ballI allI impI)
    fix cmd fn :: string
    show "\<exists>ns. parse_args (delegate_parser e fn) [] = Inr ns
             \<and> map_of ns ''length'' = Some (Int_list (default_length e fn))
             \<and> map_of ns ''offset'' = Some (Int_val 0)"
      by (rule parse_delegate_defaults)
  next
    fix cmd fn flag :: string
    assume "flag \<in> {''-l'', ''--length''}"
    then show "case those (map py_int (split_sep CHR '','' [] s)) of
                None \<Rightarrow> parse_args (delegate_parser e fn) [flag, s] =
                         Inl (ArgumentError s Type_coercion_failure)
              | Some xs \<Rightarrow>
                  (\<exists>ns. parse_args (delegate_parser e fn) [flag, s] = Inr ns
                       \<and> map_of ns ''length'' = Some (Int_list xs)
                       \<and> map_of ns ''offset'' = Some (Int_val 0))"
      using parse_delegate_length [where flag = flag and s = s and e = e and fn = fn]
      by (simp add: length_type_def)
  next
    fix cmd fn flag :: string
    assume "flag \<in> {''-o'', ''--offset''}"
    then show "case py_int s of
                None \<Rightarrow> parse_args (delegate_parser e fn) [flag, s] =
                         Inl (ArgumentError s Type_coercion_failure)
              | Some n \<Rightarrow>
                  if n < 0
                  then parse_args (delegate_parser e fn) [flag, s] =
                         Inl (ArgumentError s Failed_validity)
                  else (\<exists>ns. parse_args (delegate_parser e fn) [flag, s] = Inr ns
                       \<and> map_of ns ''length'' = Some (Int_list (default_length e fn))
                       \<and> map_of ns ''offset'' = Some (Int_val n))"
      by (rule parse_delegate_offset)
  next
    fix cmd fn :: string and h :: "'a handler" and err
    assume "(cmd, fn) \<in> set delegations"
      and "getattr_call (''call_'' @ cmd) = Some h
           \<and> parse_args (delegate_parser e fn) other_args = Inl err"
    then show "fst (h e c w other_args) = Inr CONTINUE"
      and "snd (snd (h e c w other_args)) = emit (Warning fn err) w"
      using delegating_rejects [where cmd = cmd and fn = fn and h = h and e = e
          and a = other_args and err = err and c = c and w = w]
      by simp_all
  qed
  have covered:
    "set CHOICES = {''help'', ''q'', ''quit''} \<union> {''ema'', ''sma''} \<union> fst ` set delegations"
    using choices_partition by blast
  have ignoring: "call_help e c w other_args = call_help e c w []"
    "call_q e c w other_args = call_q e c w []"
    "call_quit e c w other_args = call_quit e c w []"
    by (simp_all add: call_help_def call_q_def call_quit_def)
  show ?thesis
    by (intro conjI averages delegated covered ignoring)
qed

theorem length_and_offset_options_witness:
  "parse_args ema_parser [] = Inr [(''length'', Int_list [20, 50]), (''offset'', Int_val 0)]
   \<and> parse_args sma_parser [] = Inr [(''length'', Int_list [20, 50]), (''offset'', Int_val 0)]
   \<and> parse_args sma_parser [''--length'', ''5''] =
       Inr [(''length'', Int_list [5]), (''offset'', Int_val 0)]
   \<and> parse_args ema_parser [''-o'', ''5''] =
       Inr [(''length'', Int_list [20, 50]), (''offset'', Int_val 5)]
   \<and> (\<exists>ns. parse_args (delegate_parser sample_env ''ta_momentum.rsi'') [''-l'', ''5''] = Inr ns
          \<and> map_of ns ''length'' = Some (Int_list [5])
          \<and> map_of ns ''offset'' = Some (Int_val 0))
   \<and> fst (call_rsi sample_env sample_controller sample_world [''--offset'', ''-1''])
       = Inr CONTINUE
   \<and> snd (snd (call_rsi sample_env sample_controller sample_world [''--offset'', ''-1'']))
       = emit (Warning ''ta_momentum.rsi'' (ArgumentError ''-1'' Failed_validity)) sample_world"
proof -
  note options = length_and_offset_options [where s = "''5''" and e = sample_env
      and c = sample_controller and w = sample_world and other_args = "[''--offset'', ''-1'']"]
  have five: "py_int ''5'' = Some 5"
    by (simp add: py_int_def int_strip_def int_space_def max_str_digits_def digit_val_def)
  have averages:
    "parse_args ema_parser [] = Inr [(''length'', Int_list [20, 50]), (''offset'', Int_val 0)]"
    "parse_args sma_parser [] = Inr [(''length'', Int_list [20, 50]), (''offset'', Int_val 0)]"
    "parse_args sma_parser [''--length'', ''5''] =
       Inr [(''length'', Int_list [5]), (''offset'', Int_val 0)]"
    "parse_args ema_parser [''-o'', ''5''] =
       Inr [(''length'', Int_list [20, 50]), (''offset'', Int_val 5)]"
    using options [THEN conjunct1] by (simp_all add: five)
  have rsi: "(''rsi'', ''ta_momentum.rsi'') \<in> set delegations"
    by (simp add: delegations_def)
  note rsi_options = options [THEN conjunct2, THEN conjunct1, rule_format, OF rsi,
      unfolded case_prod_conv]
  have accepted:
    "\<exists>ns. parse_args (delegate_parser sample_env ''ta_momentum.rsi'') [''-l'', ''5''] = Inr ns
          \<and> map_of ns ''length'' = Some (Int_list [5])
          \<and> map_of ns ''offset'' = Some (Int_val 0)"
    using rsi_options [THEN conjunct2, THEN conjunct1] by (simp add: five)
  have refused: "parse_args (delegate_parser sample_env ''ta_momentum.rsi'') [''--offset'', ''-1'']
      = Inl (ArgumentError ''-1'' Failed_validity)"
    by (simp add: option_eval delegate_parser_def sample_env_def)
  have looked_up: "getattr_call (''call_'' @ ''rsi'') = Some (call_rsi :: unit handler)"
    by (simp add: getattr_call_def methods_def)
  have aborted:
    "fst (call_rsi sample_env sample_controller sample_world [''--offset'', ''-1''])
       = Inr CONTINUE
     \<and> snd (snd (call_rsi sample_env sample_controller sample_world [''--offset'', ''-1'']))
       = emit (Warning ''ta_momentum.rsi'' (ArgumentError ''-1'' Failed_validity)) sample_world"
    using rsi_options [THEN conjunct2, THEN conjunct2, THEN conjunct2, rule_format,
        of call_rsi "ArgumentError ''-1'' Failed_validity"] looked_up refused
    by simp
  show ?thesis
    using averages accepted aborted by simp
qed

section \<open>What a dispatch leaves unchanged\<close>

text \<open>
  C7: whatever the line, and whether \<open>switch\<close> returns or raises, the controller it
  leaves differs from the one it found in \<open>delete_img\<close> at most: \<open>stock\<close>, \<open>ticker\<close>,
  \<open>start\<close>, \<open>interval\<close>, \<open>gst\<close> and the parser with its choices are as before.
  \<open>CHOICES\<close> and the table \<open>methods\<close> are constants.
\<close>

theorem switch_frame:
  "(fst (snd (switch e c w an_input)))\<lparr>delete_img := delete_img c\<rparr> = c"
proof (cases "parse_known_args (ta_parser c) (str_split an_input)")
  case (Inl err)
  then show ?thesis by (simp add: switch_rejected)
next
  case (Inr accepted)
  obtain cmd other_args where accepted: "accepted = (cmd, other_args)"
    by (cases accepted)
  show ?thesis
  proof (cases "getattr_call (''call_'' @ cmd) :: 'a handler option")
    case None
    with Inr accepted show ?thesis
      using pending_cleanup_frame [where c = c and w = w and d = "delete_img c"]
      by (simp add: switch_def split: prod.splits)
  next
    case (Some h)
    have "(''call_'' @ cmd, h) \<in> set methods"
      using Some by (rule getattr_call_methods)
    then have "(fst (snd (h e (fst (pending_cleanup c w)) (snd (pending_cleanup c w)) other_args)))
                 \<lparr>delete_img := delete_img c\<rparr>
               = (fst (pending_cleanup c w))\<lparr>delete_img := delete_img c\<rparr>"
      by (rule methods_frame)
    moreover have "switch e c w an_input =
          h e (fst (pending_cleanup c w)) (snd (pending_cleanup c w)) other_args"
      using Inr accepted Some by (simp add: switch_accepted)
    ultimately show ?thesis
      using pending_cleanup_frame [where c = c and w = w and d = "delete_img c"] by simp
  qed
qed

section \<open>The default of \<open>getattr\<close>\<close>

text \<open>
  C9: a command the dispatch parser accepts is an element of \<open>CHOICES\<close>, and every
  element of \<open>CHOICES\<close> has its \<open>call_\<close> method; so \<open>getattr\<close> never falls back to its
  default, and \<open>switch\<close> never raises the \<open>TypeError\<close> that calling the default with one
  argument would give (\<open>fallback_would_raise\<close>).
\<close>

theorem fallback_never_invoked:
  assumes "cmd_choices (ta_parser c) = CHOICES"
  shows "(parse_known_args (ta_parser c) (str_split an_input) = Inr (cmd, other_args) \<longrightarrow>
            cmd \<in> set CHOICES
            \<and> (getattr_call (''call_'' @ cmd) :: 'g handler option) \<noteq> None)
         \<and> (\<forall>name \<in> set CHOICES. (getattr_call (''call_'' @ name) :: 'g handler option) \<noteq> None)
         \<and> fst (switch e (c :: 'g controller) w an_input) \<noteq> Inl TypeError"
proof -
  have cover: "\<forall>name \<in> set CHOICES. (getattr_call (''call_'' @ name) :: 'g handler option) \<noteq> None"
    using methods_cover by fastforce
  have accepted: "cmd \<in> set CHOICES"
    if "parse_known_args (ta_parser c) (str_split an_input) = Inr (cmd, other_args)"
    for cmd other_args
    using that assms parse_known_args_accepts by fastforce
  have no_type_error: "fst (switch e c w an_input) \<noteq> Inl TypeError"
  proof (cases "parse_known_args (ta_parser c) (str_split an_input)")
    case (Inl err)
    then show ?thesis by (simp add: switch_rejected)
  next
    case (Inr acc)
    obtain cmd' args' where acc: "acc = (cmd', args')" by (cases acc)
    with Inr have "cmd' \<in> set CHOICES" using accepted by simp
    then obtain h :: "'g handler" where h: "getattr_call (''call_'' @ cmd') = Some h"
      using methods_cover by blast
    have "(''call_'' @ cmd', h) \<in> set methods"
      using h by (rule getattr_call_methods)
    moreover have "switch e c w an_input =
          h e (fst (pending_cleanup c w)) (snd (pending_cleanup c w)) args'"
      using Inr acc h by (simp add: switch_accepted)
    ultimately show ?thesis
      by (simp add: methods_no_type_error)
  qed
  show ?thesis using cover accepted no_type_error by blast
qed

theorem fallback_never_invoked_witness:
  "parse_known_args (ta_parser sample_controller) (str_split ''rsi -l 14'') =
     Inr (''rsi'', [''-l'', ''14''])
   \<and> ''rsi'' \<in> set CHOICES
   \<and> (getattr_call ''call_rsi'' :: unit handler option) \<noteq> None
   \<and> fst (switch sample_env sample_controller sample_world ''rsi -l 14'') \<noteq> Inl TypeError"
  using fallback_never_invoked [where c = sample_controller and an_input = "''rsi -l 14''"
      and cmd = "''rsi''" and other_args = "[''-l'', ''14'']" and e = sample_env
      and w = sample_world]
  by (simp add: split_eval parser_eval sample_controller_def init_def CHOICES_def)

section \<open>Export before colour\<close>

text \<open>
  C10: in the three comparison views the table handed to \<open>export_data\<close> is the table as
  fetched, whatever \<open>USE_COLOR\<close> says: two runs that differ in that flag only export the
  same data. The flag shows in the table printed to the console.
\<close>

theorem export_before_color:
  "exported_tables
     (display_income_comparison (v\<lparr>USE_COLOR := b\<rparr>) similar timeframe quarter export)
     = [get_financial_comparisons v similar ''income'' timeframe quarter]
   \<and> exported_tables
       (display_balance_comparison (v\<lparr>USE_COLOR := b\<rparr>) similar timeframe quarter export)
     = [get_financial_comparisons v similar ''balance'' timeframe quarter]
   \<and> exported_tables
       (display_cashflow_comparison (v\<lparr>USE_COLOR := b\<rparr>) similar timeframe quarter export)
     = [get_financial_comparisons v similar ''cashflow'' timeframe quarter]
   \<and> exported_tables
       (display_income_comparison (v\<lparr>USE_COLOR := True\<rparr>) similar timeframe quarter export)
     = exported_tables
         (display_income_comparison (v\<lparr>USE_COLOR := False\<rparr>) similar timeframe quarter export)
   \<and> exported_tables
       (display_balance_comparison (v\<lparr>USE_COLOR := True\<rparr>) similar timeframe quarter export)
     = exported_tables
         (display_balance_comparison (v\<lparr>USE_COLOR := False\<rparr>) similar timeframe quarter export)
   \<and> exported_tables
       (display_cashflow_comparison (v\<lparr>USE_COLOR := True\<rparr>) similar timeframe quarter export)
     = exported_tables
         (display_cashflow_comparison (v\<lparr>USE_COLOR := False\<rparr>) similar timeframe quarter export)
   \<and> rendered_tables
       (display_income_comparison (v\<lparr>USE_COLOR := b\<rparr>) similar timeframe quarter export)
     = [(let fetched = get_financial_comparisons v similar ''income'' timeframe quarter;
             shown = (if b then applymap (financials_colored_values v) fetched else fetched)
         in if quarter then shown else shown\<lparr>index_name := Some timeframe\<rparr>)]"
  by (simp add: display_income_comparison_def display_balance_comparison_def
      display_cashflow_comparison_def Let_def)

end
